theory Spec2Isabelle
  imports Complex_Main
begin

section \<open>Data model of Script.js\<close>

text \<open>
  The script keeps two globals that matter for placement: \<^verbatim>\<open>grid = { size, cellSize }\<close>
  (line 4) and the array \<^verbatim>\<open>terrains\<close> (line 3). JavaScript numbers are modelled as
  follows: grid coordinates, cell counts and \<^verbatim>\<open>grid.size\<close> are integers (\<^typ>\<open>int\<close>),
  terrain dimensions, \<^verbatim>\<open>grid.cellSize\<close> and world coordinates are reals, and
  \<^verbatim>\<open>Math.ceil\<close> is the ceiling \<open>\<lceil>_\<rceil>\<close>. The model follows the script for
  \<open>0 < cellSize\<close> and finite dimensions; for \<open>cellSize = 0\<close> JavaScript divides to
  \<^verbatim>\<open>Infinity\<close> or \<^verbatim>\<open>NaN\<close>, where HOL's division returns \<open>0\<close>.

  The field \<^verbatim>\<open>rotation\<close> holds an angle that \<^verbatim>\<open>rotateTerrain\<close> advances by
  \<^verbatim>\<open>Math.PI / 2\<close> modulo \<^verbatim>\<open>Math.PI * 2\<close>, starting from \<open>0\<close>. It is modelled by the
  number of quarter turns, so that \<open>rotation t = k\<close> stands for the angle \<open>k * \<pi> / 2\<close>
  and the step is \<open>(k + 1) mod 4\<close>. Double precision agrees with this reading: the
  significand of \<^verbatim>\<open>Math.PI\<close> is a multiple of 8, so \<^verbatim>\<open>Math.PI / 2\<close>, its double, its
  triple and \<^verbatim>\<open>Math.PI * 2\<close> are computed without rounding and the fourth step yields
  exactly \<open>0\<close>.
\<close>

record grid =
  size_g :: int
  cellSize :: real

record gridPosition_t =
  x_g :: int
  z_g :: int

record dimensions_t =
  width :: real
  depth :: real
  height :: real

text \<open>The part of the three.js object \<^verbatim>\<open>terrain.model\<close> that the script writes.\<close>

record model_t =
  position_x :: real
  position_z :: real
  rotation_y :: nat

record terrain =
  id_t :: nat
  name :: string
  model :: model_t
  gridPosition :: gridPosition_t
  dimensions :: dimensions_t
  rotation :: nat
  visible :: bool

section \<open>Footprint and occupancy (lines 192--233, 371--377)\<close>

text \<open>
  \<^verbatim>\<open>Math.ceil(terrain.dimensions.width / grid.cellSize)\<close> and its twin for the depth are
  local constants of every function that needs them (lines 194--195, 218--219, 237--238,
  324--325, 438--439).
\<close>

definition cellsWide :: "grid \<Rightarrow> terrain \<Rightarrow> int" where
  "cellsWide g t = \<lceil>width (dimensions t) / cellSize g\<rceil>"

definition cellsDeep :: "grid \<Rightarrow> terrain \<Rightarrow> int" where
  "cellsDeep g t = \<lceil>depth (dimensions t) / cellSize g\<rceil>"

text \<open>The local constant \<^verbatim>\<open>noOverlap\<close> of lines 222--226.\<close>

definition noOverlap :: "int \<Rightarrow> int \<Rightarrow> int \<Rightarrow> int \<Rightarrow> int \<Rightarrow> int \<Rightarrow> int \<Rightarrow> int \<Rightarrow> bool" where
  "noOverlap x z w d tx tz terrainWidth terrainDepth =
     (x + w \<le> tx \<or> tx + terrainWidth \<le> x \<or> z + d \<le> tz \<or> tz + terrainDepth \<le> z)"

text \<open>
  \<^verbatim>\<open>isPositionOccupied\<close>: the \<^verbatim>\<open>for ... of\<close> loop over \<^verbatim>\<open>terrains\<close>, with its
  \<^verbatim>\<open>continue\<close> for the excluded id and its early \<^verbatim>\<open>return true\<close>.
\<close>

fun isPositionOccupied ::
  "grid \<Rightarrow> terrain list \<Rightarrow> int \<Rightarrow> int \<Rightarrow> int \<Rightarrow> int \<Rightarrow> nat \<Rightarrow> bool" where
  "isPositionOccupied g [] x z w d excludeTerrainId = False"
| "isPositionOccupied g (t # ts) x z w d excludeTerrainId =
     (if id_t t = excludeTerrainId then isPositionOccupied g ts x z w d excludeTerrainId
      else if \<not> noOverlap x z w d (x_g (gridPosition t)) (z_g (gridPosition t))
                  (cellsWide g t) (cellsDeep g t)
      then True
      else isPositionOccupied g ts x z w d excludeTerrainId)"

definition isValidGridPosition ::
  "grid \<Rightarrow> terrain list \<Rightarrow> int \<Rightarrow> int \<Rightarrow> int \<Rightarrow> int \<Rightarrow> nat \<Rightarrow> bool" where
  "isValidGridPosition g ts x z w d excludeTerrainId =
     (x + w \<le> size_g g \<and> z + d \<le> size_g g \<and>
      \<not> isPositionOccupied g ts x z w d excludeTerrainId)"

text \<open>The cells of the closed-open rectangle \<open>[x, x + w) \<times> [z, z + d)\<close>.\<close>

definition rect_cells :: "int \<Rightarrow> int \<Rightarrow> int \<Rightarrow> int \<Rightarrow> (int \<times> int) set" where
  "rect_cells x z w d = {x ..< x + w} \<times> {z ..< z + d}"

section \<open>Placement of a loaded terrain (lines 132--141, 157--212, 235--250)\<close>

text \<open>
  The inner and the outer \<^verbatim>\<open>for\<close> loop of \<^verbatim>\<open>findAvailableGridPosition\<close>
  (lines 202--208), each started at \<^verbatim>\<open>-searchRange\<close>. \<open>None\<close> means that the loop
  ran to its bound without returning.
\<close>

function findAvailable_x_loop ::
  "grid \<Rightarrow> terrain list \<Rightarrow> int \<Rightarrow> int \<Rightarrow> nat \<Rightarrow> int \<Rightarrow> int \<Rightarrow> gridPosition_t option" where
  "findAvailable_x_loop g ts cw cd ex z x =
     (if x < size_g g - cw + 1 then
        (if \<not> isPositionOccupied g ts x z cw cd ex then Some \<lparr>x_g = x, z_g = z\<rparr>
         else findAvailable_x_loop g ts cw cd ex z (x + 1))
      else None)"
  by pat_completeness auto
termination
  by (relation "measure (\<lambda>(g, ts, cw, cd, ex, z, x). nat (size_g g - cw + 1 - x))") auto

function findAvailable_z_loop ::
  "grid \<Rightarrow> terrain list \<Rightarrow> int \<Rightarrow> int \<Rightarrow> nat \<Rightarrow> int \<Rightarrow> int \<Rightarrow> gridPosition_t option" where
  "findAvailable_z_loop g ts cw cd ex searchRange z =
     (if z < size_g g - cd + 1 then
        (case findAvailable_x_loop g ts cw cd ex z (- searchRange) of
           Some p \<Rightarrow> Some p
         | None \<Rightarrow> findAvailable_z_loop g ts cw cd ex searchRange (z + 1))
      else None)"
  by pat_completeness auto
termination
  by (relation "measure (\<lambda>(g, ts, cw, cd, ex, sr, z). nat (size_g g - cd + 1 - z))") auto

declare findAvailable_x_loop.simps [simp del]
declare findAvailable_z_loop.simps [simp del]

definition findAvailableGridPosition :: "grid \<Rightarrow> terrain list \<Rightarrow> terrain \<Rightarrow> gridPosition_t" where
  "findAvailableGridPosition g ts t =
     (let cw = cellsWide g t; cd = cellsDeep g t; searchRange = size_g g
      in case findAvailable_z_loop g ts cw cd (id_t t) searchRange (- searchRange) of
           Some p \<Rightarrow> p
         | None \<Rightarrow> \<lparr>x_g = 0, z_g = 0\<rparr>)"

definition updateTerrainPosition :: "grid \<Rightarrow> terrain \<Rightarrow> terrain" where
  "updateTerrainPosition g t =
     (let cw = cellsWide g t; cd = cellsDeep g t;
          offsetX = (of_int cw * cellSize g - width (dimensions t)) / 2;
          offsetZ = (of_int cd * cellSize g - depth (dimensions t)) / 2
      in t\<lparr>model := (model t)
             \<lparr>position_x := of_int (x_g (gridPosition t)) * cellSize g + offsetX,
              position_z := of_int (z_g (gridPosition t)) * cellSize g + offsetZ,
              rotation_y := rotation t\<rparr>\<rparr>)"

definition positionTerrainOnGrid :: "grid \<Rightarrow> terrain list \<Rightarrow> terrain \<Rightarrow> terrain" where
  "positionTerrainOnGrid g ts t =
     updateTerrainPosition g (t\<lparr>gridPosition := findAvailableGridPosition g ts t\<rparr>)"

text \<open>
  \<^verbatim>\<open>createTerrainObject\<close> with \<^verbatim>\<open>calculateTerrainDimensions\<close>: \<open>now\<close> is the value of
  \<^verbatim>\<open>Date.now()\<close>, \<open>(sx, sy, sz)\<close> the size of the model's bounding box as three.js
  reports it.
\<close>

definition createTerrainObject ::
  "nat \<Rightarrow> string \<Rightarrow> model_t \<Rightarrow> real \<times> real \<times> real \<Rightarrow> terrain" where
  "createTerrainObject now nm m box =
     (case box of (sx, sy, sz) \<Rightarrow>
        \<lparr>id_t = now, name = nm, model = m, gridPosition = \<lparr>x_g = 0, z_g = 0\<rparr>,
         dimensions = \<lparr>width = sx, depth = sz, height = sy\<rparr>, rotation = 0, visible = True\<rparr>)"

section \<open>Application state and the operations on it\<close>

text \<open>
  \<open>selectedTerrain\<close> is a reference to an element of \<^verbatim>\<open>terrains\<close> in the script
  (\<^verbatim>\<open>onMouseDown\<close> takes it from \<^verbatim>\<open>terrains.find\<close>); here it is the index of that
  element, and an index beyond the array, which the script cannot produce, is treated like
  no selection. \<open>controls_target\<close> is \<^verbatim>\<open>controls.target\<close> of the orbit controls.
\<close>

record app_state =
  terrains :: "terrain list"
  selectedTerrain :: "nat option"
  isDragging :: bool
  dragOffset_x :: real
  dragOffset_z :: real
  controls_target :: "real \<times> real \<times> real"

text \<open>
  The success callback of \<^verbatim>\<open>loadTerrain\<close> (lines 132--141): the new terrain is pushed
  first and positioned afterwards, so the search sees it in \<^verbatim>\<open>terrains\<close> and skips it
  by its id.
\<close>

definition loadTerrain :: "grid \<Rightarrow> app_state \<Rightarrow> terrain \<Rightarrow> app_state" where
  "loadTerrain g st t =
     (let ts1 = terrains st @ [t]
      in st\<lparr>terrains := ts1[length (terrains st) := positionTerrainOnGrid g ts1 t]\<rparr>)"

text \<open>
  \<^verbatim>\<open>onMouseMove\<close>: \<open>(ix, iz)\<close> is the point where the pointer's ray meets the ground
  plane. \<^verbatim>\<open>Math.round\<close> rounds half up, as \<^const>\<open>round\<close> does.
\<close>

definition onMouseMove :: "grid \<Rightarrow> app_state \<Rightarrow> real \<Rightarrow> real \<Rightarrow> app_state" where
  "onMouseMove g st ix iz =
     (case selectedTerrain st of
        None \<Rightarrow> st
      | Some i \<Rightarrow>
          if \<not> isDragging st \<or> \<not> i < length (terrains st) then st
          else
            let sel = terrains st ! i;
                worldX = ix - dragOffset_x st;
                worldZ = iz - dragOffset_z st;
                gridX = round (worldX / cellSize g);
                gridZ = round (worldZ / cellSize g);
                cw = cellsWide g sel;
                cd = cellsDeep g sel
            in if isValidGridPosition g (terrains st) gridX gridZ cw cd (id_t sel)
               then st\<lparr>terrains := (terrains st)
                      [i := updateTerrainPosition g
                              (sel\<lparr>gridPosition := \<lparr>x_g = gridX, z_g = gridZ\<rparr>\<rparr>)]\<rparr>
               else st)"

text \<open>\<^verbatim>\<open>Array.prototype.findIndex\<close>; \<open>None\<close> stands for \<open>-1\<close>.\<close>

fun findIndex :: "('a \<Rightarrow> bool) \<Rightarrow> 'a list \<Rightarrow> nat option" where
  "findIndex P [] = None"
| "findIndex P (a # as) = (if P a then Some 0 else map_option Suc (findIndex P as))"

text \<open>
  \<^verbatim>\<open>rotateTerrain\<close> (lines 424--457). The function \<^verbatim>\<open>findNearestValidPosition\<close> that
  line 447 calls is declared nowhere in the script, so evaluating the call raises a
  \<^verbatim>\<open>ReferenceError\<close>. At that point \<^verbatim>\<open>rotation\<close> and \<^verbatim>\<open>dimensions\<close> have been
  assigned already and stay so. The result is the completion of the call together with the
  state it leaves behind.
\<close>

datatype js_error = ReferenceError

definition rotateTerrain :: "grid \<Rightarrow> nat \<Rightarrow> app_state \<Rightarrow> (js_error + unit) \<times> app_state" where
  "rotateTerrain g terrainId st =
     (case findIndex (\<lambda>t. id_t t = terrainId) (terrains st) of
        None \<Rightarrow> (Inr (), st)
      | Some i \<Rightarrow>
          let t = terrains st ! i;
              currentGridPos = gridPosition t;
              t1 = t\<lparr>rotation := (rotation t + 1) mod 4\<rparr>;
              t2 = t1\<lparr>dimensions := (dimensions t1)
                        \<lparr>width := depth (dimensions t1), depth := width (dimensions t1)\<rparr>\<rparr>;
              ts2 = (terrains st)[i := t2];
              cw = cellsWide g t2;
              cd = cellsDeep g t2
          in if isValidGridPosition g ts2 (x_g currentGridPos) (z_g currentGridPos) cw cd (id_t t2)
             then (Inr (), st\<lparr>terrains := (terrains st)
                     [i := updateTerrainPosition g (t2\<lparr>gridPosition := currentGridPos\<rparr>)]\<rparr>)
             else (Inl ReferenceError, st\<lparr>terrains := ts2\<rparr>))"

text \<open>
  \<^verbatim>\<open>centerOnTerrain\<close>: \<open>boxCenter\<close> is the centre of the model's bounding box as three.js
  computes it.
\<close>

definition centerOnTerrain ::
  "(model_t \<Rightarrow> real \<times> real \<times> real) \<Rightarrow> nat \<Rightarrow> app_state \<Rightarrow> app_state" where
  "centerOnTerrain boxCenter terrainId st =
     (case findIndex (\<lambda>t. id_t t = terrainId) (terrains st) of
        None \<Rightarrow> st
      | Some i \<Rightarrow> st\<lparr>controls_target := boxCenter (model (terrains st ! i))\<rparr>)"

definition removeTerrain :: "nat \<Rightarrow> app_state \<Rightarrow> app_state" where
  "removeTerrain terrainId st =
     (case findIndex (\<lambda>t. id_t t = terrainId) (terrains st) of
        None \<Rightarrow> st
      | Some terrainIndex \<Rightarrow>
          st\<lparr>terrains := take terrainIndex (terrains st) @ drop (Suc terrainIndex) (terrains st)\<rparr>)"

text \<open>
  The state that one click on a terrain's Rotate button leaves behind, whether the handler
  returns or raises: an uncaught exception of an event handler does not undo its
  assignments, and the page goes on with the next event.
\<close>

definition rotate_state :: "grid \<Rightarrow> nat \<Rightarrow> app_state \<Rightarrow> app_state" where
  "rotate_state g terrainId st = snd (rotateTerrain g terrainId st)"

section \<open>Properties named by the specification\<close>

text \<open>
  The search order as the specification words it: \<open>z\<close> ascending from \<open>-size\<close> through
  \<open>size - cellsDeep\<close> in the outer loop, \<open>x\<close> ascending from \<open>-size\<close> through
  \<open>size - cellsWide\<close> in the inner one, the first free candidate wins, and \<open>(0, 0)\<close> is
  the fallback. This definition follows the specification, not the script; it is compared
  with \<^const>\<open>findAvailableGridPosition\<close> below.
\<close>

definition scan_order :: "grid \<Rightarrow> int \<Rightarrow> int \<Rightarrow> (int \<times> int) list" where
  "scan_order g cw cd =
     concat (map (\<lambda>z. map (\<lambda>x. (x, z)) [- size_g g .. size_g g - cw])
                 [- size_g g .. size_g g - cd])"

definition findFreePosition_spec :: "grid \<Rightarrow> terrain list \<Rightarrow> terrain \<Rightarrow> gridPosition_t" where
  "findFreePosition_spec g ts t =
     (case List.find
             (\<lambda>(x, z). \<not> isPositionOccupied g ts x z (cellsWide g t) (cellsDeep g t) (id_t t))
             (scan_order g (cellsWide g t) (cellsDeep g t)) of
        Some (x, z) \<Rightarrow> \<lparr>x_g = x, z_g = z\<rparr>
      | None \<Rightarrow> \<lparr>x_g = 0, z_g = 0\<rparr>)"

text \<open>The cells a terrain occupies, and the two invariants of the registry.\<close>

definition terrain_cells :: "grid \<Rightarrow> terrain \<Rightarrow> (int \<times> int) set" where
  "terrain_cells g t =
     rect_cells (x_g (gridPosition t)) (z_g (gridPosition t)) (cellsWide g t) (cellsDeep g t)"

definition NO_OVERLAP :: "grid \<Rightarrow> terrain list \<Rightarrow> bool" where
  "NO_OVERLAP g ts =
     (\<forall>i \<in> {..< length ts}. \<forall>j \<in> {..< length ts}.
        i \<noteq> j \<longrightarrow> terrain_cells g (ts ! i) \<inter> terrain_cells g (ts ! j) = {})"

definition UPPER_BOUND :: "grid \<Rightarrow> terrain list \<Rightarrow> bool" where
  "UPPER_BOUND g ts =
     (\<forall>t \<in> set ts. x_g (gridPosition t) + cellsWide g t \<le> size_g g \<and>
                    z_g (gridPosition t) + cellsDeep g t \<le> size_g g)"

text \<open>
  The invariant that commits are meant to keep: both properties above, for terrains that the
  registry tells apart by their ids.
\<close>

definition registry_inv :: "grid \<Rightarrow> terrain list \<Rightarrow> bool" where
  "registry_inv g ts = (NO_OVERLAP g ts \<and> UPPER_BOUND g ts \<and> distinct (map id_t ts))"

text \<open>
  The world position that centres a terrain's footprint in its block of cells, per axis
  \<open>gridPosition * cellSize + (cells * cellSize - dimension) / 2\<close>.
\<close>

definition world_centered :: "grid \<Rightarrow> terrain \<Rightarrow> bool" where
  "world_centered g t =
     (position_x (model t) =
        of_int (x_g (gridPosition t)) * cellSize g +
        (of_int \<lceil>width (dimensions t) / cellSize g\<rceil> * cellSize g - width (dimensions t)) / 2 \<and>
      position_z (model t) =
        of_int (z_g (gridPosition t)) * cellSize g +
        (of_int \<lceil>depth (dimensions t) / cellSize g\<rceil> * cellSize g - depth (dimensions t)) / 2)"

section \<open>Concrete inputs\<close>

text \<open>The initial value of \<^verbatim>\<open>grid\<close> (line 4) and a state with no terrain loaded.\<close>

definition grid_init :: grid where
  "grid_init = \<lparr>size_g = 10, cellSize = 10\<rparr>"

definition model_init :: model_t where
  "model_init = \<lparr>position_x = 0, position_z = 0, rotation_y = 0\<rparr>"

definition state_init :: app_state where
  "state_init = \<lparr>terrains = [], selectedTerrain = None, isDragging = False,
                  dragOffset_x = 0, dragOffset_z = 0, controls_target = (0, 0, 0)\<rparr>"

text \<open>Scenario A: a terrain of width 15 and depth 5.\<close>

definition scenarioA :: terrain where
  "scenarioA = createTerrainObject 1 ''A'' model_init (15, 1, 5)"

text \<open>
  A grid of size 1 whose whole search range \<open>{-1, 0} \<times> {-1, 0}\<close> is covered by one
  terrain of \<open>2 \<times> 2\<close> cells, and a terrain of one cell to be placed.
\<close>

definition grid_small :: grid where
  "grid_small = \<lparr>size_g = 1, cellSize = 10\<rparr>"

definition big_terrain :: terrain where
  "big_terrain =
     (createTerrainObject 1 ''big'' model_init (20, 1, 20))\<lparr>gridPosition := \<lparr>x_g = - 1, z_g = - 1\<rparr>\<rparr>"

definition unit_terrain :: terrain where
  "unit_terrain = createTerrainObject 2 ''unit'' model_init (10, 1, 10)"

text \<open>
  A terrain of \<open>1 \<times> 3\<close> cells and the state after loading it and then the terrain of
  one cell: the first is put at \<open>(-10, -10)\<close>, the second beside it at \<open>(-9, -10)\<close>.
\<close>

definition tall_terrain :: terrain where
  "tall_terrain = createTerrainObject 1 ''tall'' model_init (10, 1, 30)"

definition state_two :: app_state where
  "state_two = loadTerrain grid_init (loadTerrain grid_init state_init tall_terrain) unit_terrain"

text \<open>A model with an empty bounding box, for which three.js reports the size \<open>(0, 0, 0)\<close>.\<close>

definition flat_terrain :: terrain where
  "flat_terrain = createTerrainObject 3 ''flat'' model_init (0, 0, 0)"

definition state_unit :: app_state where
  "state_unit = loadTerrain grid_init state_init unit_terrain"

text \<open>
  Scenario B: two terrains of \<open>2 \<times> 2\<close> cells at \<open>(0, 0)\<close> and \<open>(2, 0)\<close>, the second
  one being dragged.
\<close>

definition scenarioB_first :: terrain where
  "scenarioB_first = updateTerrainPosition grid_init
     ((createTerrainObject 1 ''first'' model_init (20, 1, 20))
        \<lparr>gridPosition := \<lparr>x_g = 0, z_g = 0\<rparr>\<rparr>)"

definition scenarioB_second :: terrain where
  "scenarioB_second = updateTerrainPosition grid_init
     ((createTerrainObject 2 ''second'' model_init (20, 1, 20))
        \<lparr>gridPosition := \<lparr>x_g = 2, z_g = 0\<rparr>\<rparr>)"

definition scenarioB :: app_state where
  "scenarioB = \<lparr>terrains = [scenarioB_first, scenarioB_second], selectedTerrain = Some 1,
                 isDragging = True, dragOffset_x = 0, dragOffset_z = 0,
                 controls_target = (0, 0, 0)\<rparr>"

text \<open>
  A terrain of width 12 and depth 25, that is \<open>2 \<times> 3\<close> cells with different margins on
  the two axes, loaded before the terrain of one cell: the first is put at \<open>(-10, -10)\<close>,
  the second at \<open>(-8, -10)\<close>.
\<close>

definition oblong_terrain :: terrain where
  "oblong_terrain = createTerrainObject 1 ''oblong'' model_init (12, 1, 25)"

definition state_oblong :: app_state where
  "state_oblong =
     loadTerrain grid_init (loadTerrain grid_init state_init oblong_terrain) unit_terrain"


section \<open>The overlap test\<close>

lemma isPositionOccupied_iff:
  "isPositionOccupied g ts x z w d ex \<longleftrightarrow>
     (\<exists>t \<in> set ts. id_t t \<noteq> ex \<and>
        \<not> noOverlap x z w d (x_g (gridPosition t)) (z_g (gridPosition t))
             (cellsWide g t) (cellsDeep g t))"
  by (induction ts) auto

lemma noOverlap_disjoint:
  "noOverlap x z w d tx tz tw td \<Longrightarrow> rect_cells x z w d \<inter> rect_cells tx tz tw td = {}"
  by (auto simp: noOverlap_def rect_cells_def)

lemma disjoint_noOverlap:
  assumes "0 < w" "0 < d" "0 < tw" "0 < td"
    and "rect_cells x z w d \<inter> rect_cells tx tz tw td = {}"
  shows "noOverlap x z w d tx tz tw td"
proof (rule ccontr)
  assume "\<not> noOverlap x z w d tx tz tw td"
  then have "tx < x + w" "x < tx + tw" "tz < z + d" "z < tz + td"
    by (auto simp: noOverlap_def)
  with assms(1-4) have "(max x tx, max z tz) \<in> rect_cells x z w d \<inter> rect_cells tx tz tw td"
    by (auto simp: rect_cells_def)
  with assms(5) show False by blast
qed


text \<open>
  Claim C5. The overlap test of the occupancy check: a position is occupied exactly when
  some other terrain fails the test "one rectangle's minimum edge on some axis is at least
  the other's maximum edge on that axis". For rectangles of positive size this test holds
  exactly when the closed-open rectangles \<open>[x, x + w) \<times> [z, z + d)\<close> share no cell, and
  rectangles that touch along an edge pass it.
\<close>

theorem overlap_test_closed_open:
  "(isPositionOccupied g ts x z w d ex \<longleftrightarrow>
      (\<exists>t \<in> set ts. id_t t \<noteq> ex \<and>
         \<not> (x + w \<le> x_g (gridPosition t) \<or> x_g (gridPosition t) + cellsWide g t \<le> x \<or>
            z + d \<le> z_g (gridPosition t) \<or> z_g (gridPosition t) + cellsDeep g t \<le> z)))
   \<and> (0 < w \<and> 0 < d \<and> 0 < tw \<and> 0 < td \<longrightarrow>
        (noOverlap x z w d tx tz tw td \<longleftrightarrow>
           rect_cells x z w d \<inter> rect_cells tx tz tw td = {}))
   \<and> noOverlap x z w d (x + w) tz tw td
   \<and> noOverlap x z w d tx (z + d) tw td"
proof (intro conjI impI)
  show "isPositionOccupied g ts x z w d ex \<longleftrightarrow>
      (\<exists>t \<in> set ts. id_t t \<noteq> ex \<and>
         \<not> (x + w \<le> x_g (gridPosition t) \<or> x_g (gridPosition t) + cellsWide g t \<le> x \<or>
            z + d \<le> z_g (gridPosition t) \<or> z_g (gridPosition t) + cellsDeep g t \<le> z))"
    by (simp only: isPositionOccupied_iff noOverlap_def)
next
  assume "0 < w \<and> 0 < d \<and> 0 < tw \<and> 0 < td"
  then show "noOverlap x z w d tx tz tw td \<longleftrightarrow>
      rect_cells x z w d \<inter> rect_cells tx tz tw td = {}"
    using noOverlap_disjoint disjoint_noOverlap by blast
next
  show "noOverlap x z w d (x + w) tz tw td" by (simp add: noOverlap_def)
next
  show "noOverlap x z w d tx (z + d) tw td" by (simp add: noOverlap_def)
qed

theorem overlap_test_closed_open_witness:
  "(0::int) < 2 \<and> noOverlap 0 0 2 2 2 0 2 2 \<and> rect_cells 0 0 2 2 \<inter> rect_cells 2 0 2 2 = {}
   \<and> isPositionOccupied grid_small [big_terrain] 0 0 1 1 2
   \<and> \<not> isPositionOccupied grid_small [big_terrain] 1 0 1 1 2"
  using overlap_test_closed_open [where g = grid_small and ts = "[big_terrain]" and x = 0
      and z = 0 and w = 1 and d = 1 and ex = 2 and tw = 2 and td = 2 and tx = 2 and tz = 0]
    overlap_test_closed_open [where g = grid_small and ts = "[big_terrain]" and x = 1
      and z = 0 and w = 1 and d = 1 and ex = 2 and tw = 2 and td = 2 and tx = 2 and tz = 0]
    overlap_test_closed_open [where g = grid_small and ts = "[]" and x = 0
      and z = 0 and w = 2 and d = 2 and ex = 2 and tw = 2 and td = 2 and tx = 2 and tz = 0]
  by (simp add: noOverlap_def grid_small_def big_terrain_def createTerrainObject_def
      cellsWide_def cellsDeep_def)

section \<open>The search for a free position\<close>

lemma find_append_cases:
  "List.find P (xs @ ys) = (case List.find P xs of Some a \<Rightarrow> Some a | None \<Rightarrow> List.find P ys)"
  by (induction xs) auto

lemma find_map_comp: "List.find P (map f xs) = map_option f (List.find (\<lambda>a. P (f a)) xs)"
  by (induction xs) auto

lemma x_loop_find:
  "findAvailable_x_loop g ts cw cd ex z x =
     map_option (\<lambda>x. \<lparr>x_g = x, z_g = z\<rparr>)
       (List.find (\<lambda>x. \<not> isPositionOccupied g ts x z cw cd ex) [x .. size_g g - cw])"
proof (induction g ts cw cd ex z x rule: findAvailable_x_loop.induct)
  case (1 g ts cw cd ex z x)
  show ?case
  proof (cases "x < size_g g - cw + 1")
    case False
    then show ?thesis by (simp add: findAvailable_x_loop.simps [of g ts cw cd ex z x])
  next
    case inrange: True
    then have ups: "[x .. size_g g - cw] = x # [x + 1 .. size_g g - cw]"
      by (simp add: upto_rec1)
    show ?thesis
    proof (cases "isPositionOccupied g ts x z cw cd ex")
      case True
      with inrange "1.IH" ups show ?thesis
        by (simp add: findAvailable_x_loop.simps [of g ts cw cd ex z x])
    next
      case False
      with inrange ups show ?thesis
        by (simp add: findAvailable_x_loop.simps [of g ts cw cd ex z x])
    qed
  qed
qed

lemma z_loop_find:
  "findAvailable_z_loop g ts cw cd ex sr z =
     map_option (\<lambda>(x, z). \<lparr>x_g = x, z_g = z\<rparr>)
       (List.find (\<lambda>(x, z). \<not> isPositionOccupied g ts x z cw cd ex)
          (concat (map (\<lambda>z. map (\<lambda>x. (x, z)) [- sr .. size_g g - cw]) [z .. size_g g - cd])))"
proof (induction g ts cw cd ex sr z rule: findAvailable_z_loop.induct)
  case (1 g ts cw cd ex sr z)
  show ?case
  proof (cases "z < size_g g - cd + 1")
    case False
    then show ?thesis by (simp add: findAvailable_z_loop.simps [of g ts cw cd ex sr z])
  next
    case inrange: True
    then have ups: "[z .. size_g g - cd] = z # [z + 1 .. size_g g - cd]"
      by (simp add: upto_rec1)
    show ?thesis
    proof (cases "findAvailable_x_loop g ts cw cd ex z (- sr)")
      case None
      with inrange "1.IH" ups show ?thesis
        by (simp add: findAvailable_z_loop.simps [of g ts cw cd ex sr z]
            find_append_cases find_map_comp x_loop_find)
    next
      case (Some p)
      with inrange ups show ?thesis
        by (auto simp add: findAvailable_z_loop.simps [of g ts cw cd ex sr z]
            find_append_cases find_map_comp x_loop_find)
    qed
  qed
qed

lemma findAvailableGridPosition_eq_spec:
  "findAvailableGridPosition g ts t = findFreePosition_spec g ts t"
  by (simp add: findAvailableGridPosition_def findFreePosition_spec_def scan_order_def z_loop_find
      split: option.splits prod.splits)

text \<open>
  Claim C3. \<^const>\<open>findAvailableGridPosition\<close> returns the first free candidate of the
  row-major scan (\<open>z\<close> from \<open>-size\<close> through \<open>size - cellsDeep\<close>, within each \<open>z\<close> the
  \<open>x\<close> from \<open>-size\<close> through \<open>size - cellsWide\<close>), and \<open>(0, 0)\<close> when the scan finds
  none. Scenario A: on the initial grid the terrain of width 15 and depth 5 has
  \<open>2 \<times> 1\<close> cells and is put at \<open>(-10, -10)\<close>. On the small grid every scanned position
  is taken, and the fallback \<open>(0, 0)\<close> is returned although it is occupied.
\<close>

theorem findAvailableGridPosition_scan:
  "findAvailableGridPosition g ts t = findFreePosition_spec g ts t
   \<and> cellsWide grid_init scenarioA = 2 \<and> cellsDeep grid_init scenarioA = 1
   \<and> findAvailableGridPosition grid_init [scenarioA] scenarioA = \<lparr>x_g = - 10, z_g = - 10\<rparr>
   \<and> map gridPosition (terrains (loadTerrain grid_init state_init scenarioA))
       = [\<lparr>x_g = - 10, z_g = - 10\<rparr>]
   \<and> findAvailableGridPosition grid_small [big_terrain, unit_terrain] unit_terrain
       = \<lparr>x_g = 0, z_g = 0\<rparr>
   \<and> isPositionOccupied grid_small [big_terrain, unit_terrain] 0 0
       (cellsWide grid_small unit_terrain) (cellsDeep grid_small unit_terrain) (id_t unit_terrain)"
proof (intro conjI)
  show "findAvailableGridPosition g ts t = findFreePosition_spec g ts t"
    by (rule findAvailableGridPosition_eq_spec)
  show "cellsWide grid_init scenarioA = 2" by code_simp
  show "cellsDeep grid_init scenarioA = 1" by code_simp
  show "findAvailableGridPosition grid_init [scenarioA] scenarioA = \<lparr>x_g = - 10, z_g = - 10\<rparr>"
    by code_simp
  show "map gridPosition (terrains (loadTerrain grid_init state_init scenarioA))
       = [\<lparr>x_g = - 10, z_g = - 10\<rparr>]"
    by code_simp
  show "findAvailableGridPosition grid_small [big_terrain, unit_terrain] unit_terrain
       = \<lparr>x_g = 0, z_g = 0\<rparr>"
    by code_simp
  show "isPositionOccupied grid_small [big_terrain, unit_terrain] 0 0
       (cellsWide grid_small unit_terrain) (cellsDeep grid_small unit_terrain) (id_t unit_terrain)"
    by code_simp
qed

theorem findAvailableGridPosition_scan_witness:
  "findFreePosition_spec grid_init
     (terrains (loadTerrain grid_init state_init scenarioA) @ [unit_terrain]) unit_terrain
   = \<lparr>x_g = - 8, z_g = - 10\<rparr>"
  using findAvailableGridPosition_scan [of grid_init
      "terrains (loadTerrain grid_init state_init scenarioA) @ [unit_terrain]" unit_terrain]
  by code_simp

section \<open>Facts about the building blocks\<close>

lemma cells_updateTerrainPosition [simp]:
  "cellsWide g (updateTerrainPosition g' t) = cellsWide g t"
  "cellsDeep g (updateTerrainPosition g' t) = cellsDeep g t"
  by (simp_all add: cellsWide_def cellsDeep_def updateTerrainPosition_def Let_def)

lemma fields_updateTerrainPosition [simp]:
  "id_t (updateTerrainPosition g t) = id_t t"
  "name (updateTerrainPosition g t) = name t"
  "gridPosition (updateTerrainPosition g t) = gridPosition t"
  "dimensions (updateTerrainPosition g t) = dimensions t"
  "rotation (updateTerrainPosition g t) = rotation t"
  "visible (updateTerrainPosition g t) = visible t"
  by (simp_all add: updateTerrainPosition_def Let_def)

lemma world_centered_updateTerrainPosition: "world_centered g (updateTerrainPosition g t)"
  by (simp add: world_centered_def updateTerrainPosition_def Let_def cellsWide_def cellsDeep_def)

lemma findIndex_None_iff: "findIndex P xs = None \<longleftrightarrow> (\<forall>a \<in> set xs. \<not> P a)"
  by (induction xs) auto

lemma findIndex_Some_less: "findIndex P xs = Some i \<Longrightarrow> i < length xs \<and> P (xs ! i)"
  by (induction xs arbitrary: i) (auto split: if_splits)

lemma findIndex_map: "findIndex P (map f xs) = findIndex (\<lambda>a. P (f a)) xs"
  by (induction xs) auto

lemma findIndex_same_ids:
  assumes "map id_t ts' = map id_t ts"
  shows "findIndex (\<lambda>t. id_t t = tid) ts' = findIndex (\<lambda>t. id_t t = tid) ts"
proof -
  have "findIndex (\<lambda>t. id_t t = tid) ts' = findIndex (\<lambda>n. n = tid) (map id_t ts')"
    by (simp add: findIndex_map)
  also have "\<dots> = findIndex (\<lambda>t. id_t t = tid) ts"
    by (simp add: assms findIndex_map)
  finally show ?thesis .
qed

lemma map_update_same: "i < length xs \<Longrightarrow> f v = f (xs ! i) \<Longrightarrow> map f (xs[i := v]) = map f xs"
  by (simp add: map_update list_update_same_conv)

section \<open>Drag moves\<close>

lemma onMouseMove_rejected:
  assumes "selectedTerrain st = Some i"
    and "\<not> isValidGridPosition g (terrains st)
            (round ((ix - dragOffset_x st) / cellSize g))
            (round ((iz - dragOffset_z st) / cellSize g))
            (cellsWide g (terrains st ! i)) (cellsDeep g (terrains st ! i))
            (id_t (terrains st ! i))"
  shows "onMouseMove g st ix iz = st"
  using assms by (simp add: onMouseMove_def Let_def)

lemma not_valid_iff:
  "\<not> isValidGridPosition g ts x z w d ex \<longleftrightarrow>
     (size_g g < x + w \<or> size_g g < z + d \<or>
      (\<exists>u \<in> set ts. id_t u \<noteq> ex \<and>
         \<not> noOverlap x z w d (x_g (gridPosition u)) (z_g (gridPosition u))
              (cellsWide g u) (cellsDeep g u)))"
  by (auto simp: isValidGridPosition_def isPositionOccupied_iff)

text \<open>
  Claim C4. A candidate fails validation exactly when it exceeds the upper bound on an axis
  or overlaps a terrain with another id than the dragged one. When the candidate that
  \<^const>\<open>onMouseMove\<close> computes for the selected terrain fails validation, the whole state
  is returned as it was. Scenario B: with the pointer over the world point \<open>(10, 0)\<close> the
  candidate for the second terrain is \<open>(1, 0)\<close>; it is not valid, the state is unchanged
  and the terrain stays at \<open>(2, 0)\<close>.
\<close>

theorem onMouseMove_rejected_unchanged:
  "(selectedTerrain st = Some i \<and>
    \<not> isValidGridPosition g (terrains st)
         (round ((ix - dragOffset_x st) / cellSize g))
         (round ((iz - dragOffset_z st) / cellSize g))
         (cellsWide g (terrains st ! i)) (cellsDeep g (terrains st ! i))
         (id_t (terrains st ! i))
    \<longrightarrow> onMouseMove g st ix iz = st)
   \<and> (\<not> isValidGridPosition g ts x z w d ex \<longleftrightarrow>
        (size_g g < x + w \<or> size_g g < z + d \<or>
         (\<exists>u \<in> set ts. id_t u \<noteq> ex \<and>
            \<not> noOverlap x z w d (x_g (gridPosition u)) (z_g (gridPosition u))
                 (cellsWide g u) (cellsDeep g u))))
   \<and> map (cellsWide grid_init) (terrains scenarioB) = [2, 2]
   \<and> map (cellsDeep grid_init) (terrains scenarioB) = [2, 2]
   \<and> map gridPosition (terrains scenarioB) = [\<lparr>x_g = 0, z_g = 0\<rparr>, \<lparr>x_g = 2, z_g = 0\<rparr>]
   \<and> round ((10 - dragOffset_x scenarioB) / cellSize grid_init) = 1
   \<and> round ((0 - dragOffset_z scenarioB) / cellSize grid_init) = 0
   \<and> \<not> isValidGridPosition grid_init (terrains scenarioB) 1 0 2 2 (id_t scenarioB_second)
   \<and> onMouseMove grid_init scenarioB 10 0 = scenarioB"
proof (intro conjI)
  show "selectedTerrain st = Some i \<and>
    \<not> isValidGridPosition g (terrains st)
         (round ((ix - dragOffset_x st) / cellSize g))
         (round ((iz - dragOffset_z st) / cellSize g))
         (cellsWide g (terrains st ! i)) (cellsDeep g (terrains st ! i))
         (id_t (terrains st ! i))
    \<longrightarrow> onMouseMove g st ix iz = st"
    using onMouseMove_rejected by blast
  show "\<not> isValidGridPosition g ts x z w d ex \<longleftrightarrow>
        (size_g g < x + w \<or> size_g g < z + d \<or>
         (\<exists>u \<in> set ts. id_t u \<noteq> ex \<and>
            \<not> noOverlap x z w d (x_g (gridPosition u)) (z_g (gridPosition u))
                 (cellsWide g u) (cellsDeep g u)))"
    by (rule not_valid_iff)
  show "map (cellsWide grid_init) (terrains scenarioB) = [2, 2]" by code_simp
  show "map (cellsDeep grid_init) (terrains scenarioB) = [2, 2]" by code_simp
  show "map gridPosition (terrains scenarioB) = [\<lparr>x_g = 0, z_g = 0\<rparr>, \<lparr>x_g = 2, z_g = 0\<rparr>]"
    by code_simp
  show "round ((10 - dragOffset_x scenarioB) / cellSize grid_init) = 1" by code_simp
  show "round ((0 - dragOffset_z scenarioB) / cellSize grid_init) = 0" by code_simp
  show "\<not> isValidGridPosition grid_init (terrains scenarioB) 1 0 2 2 (id_t scenarioB_second)"
    by code_simp
  show "onMouseMove grid_init scenarioB 10 0 = scenarioB" by code_simp
qed

theorem onMouseMove_rejected_unchanged_witness:
  "selectedTerrain scenarioB = Some 1
   \<and> \<not> isValidGridPosition grid_init (terrains scenarioB)
         (round ((4 - dragOffset_x scenarioB) / cellSize grid_init))
         (round ((0 - dragOffset_z scenarioB) / cellSize grid_init))
         (cellsWide grid_init (terrains scenarioB ! 1)) (cellsDeep grid_init (terrains scenarioB ! 1))
         (id_t (terrains scenarioB ! 1))
   \<and> onMouseMove grid_init scenarioB 4 0 = scenarioB"
proof -
  have sel: "selectedTerrain scenarioB = Some 1" by (simp add: scenarioB_def)
  have bad: "\<not> isValidGridPosition grid_init (terrains scenarioB)
         (round ((4 - dragOffset_x scenarioB) / cellSize grid_init))
         (round ((0 - dragOffset_z scenarioB) / cellSize grid_init))
         (cellsWide grid_init (terrains scenarioB ! 1)) (cellsDeep grid_init (terrains scenarioB ! 1))
         (id_t (terrains scenarioB ! 1))"
    by code_simp
  from sel bad
    onMouseMove_rejected_unchanged [where st = scenarioB and i = 1 and g = grid_init
      and ix = 4 and iz = 0]
  have "onMouseMove grid_init scenarioB 4 0 = scenarioB" by blast
  with sel bad show ?thesis by blast
qed

lemma onMouseMove_cases:
  "onMouseMove g st ix iz = st \<or>
   (\<exists>i p. selectedTerrain st = Some i \<and> i < length (terrains st) \<and>
      onMouseMove g st ix iz =
        st\<lparr>terrains := (terrains st)
             [i := updateTerrainPosition g ((terrains st ! i)\<lparr>gridPosition := p\<rparr>)]\<rparr>)"
  by (auto simp: onMouseMove_def Let_def split: option.splits)

lemma onMouseMove_other_fields:
  "selectedTerrain (onMouseMove g st ix iz) = selectedTerrain st"
  "isDragging (onMouseMove g st ix iz) = isDragging st"
  "controls_target (onMouseMove g st ix iz) = controls_target st"
  using onMouseMove_cases [of g st ix iz] by auto





section \<open>Operations on an unknown id\<close>

text \<open>
  Claim C7. For an id that no terrain of the registry carries, \<^const>\<open>rotateTerrain\<close>
  returns normally, and it, \<^const>\<open>centerOnTerrain\<close> and \<^const>\<open>removeTerrain\<close> leave the
  whole state as it was. The models of the latter two have no error result: neither body
  has a statement that can raise before the guard on the lookup's result.
\<close>

theorem unknown_id_noop:
  assumes "tid \<notin> id_t ` set (terrains st)"
  shows "rotateTerrain g tid st = (Inr (), st) \<and> centerOnTerrain boxCenter tid st = st \<and>
         removeTerrain tid st = st"
proof -
  from assms have "findIndex (\<lambda>t. id_t t = tid) (terrains st) = None"
    by (auto simp: findIndex_None_iff)
  then show ?thesis
    by (simp add: rotateTerrain_def centerOnTerrain_def removeTerrain_def)
qed

theorem unknown_id_noop_witness:
  "7 \<notin> id_t ` set (terrains state_two)
   \<and> rotateTerrain grid_init 7 state_two = (Inr (), state_two)
   \<and> centerOnTerrain (\<lambda>m. (position_x m, 0, position_z m)) 7 state_two = state_two
   \<and> removeTerrain 7 state_two = state_two"
proof -
  have absent: "7 \<notin> id_t ` set (terrains state_two)" by code_simp
  from absent unknown_id_noop [OF absent, of grid_init "\<lambda>m. (position_x m, 0, position_z m)"]
  show ?thesis by blast
qed

section \<open>Rotation\<close>

lemma rotate_state_step:
  assumes "findIndex (\<lambda>t. id_t t = tid) (terrains st) = Some i"
  shows "findIndex (\<lambda>t. id_t t = tid) (terrains (rotate_state g tid st)) = Some i"
    and "rotation (terrains (rotate_state g tid st) ! i) = (rotation (terrains st ! i) + 1) mod 4"
    and "width (dimensions (terrains (rotate_state g tid st) ! i)) = depth (dimensions (terrains st ! i))"
    and "depth (dimensions (terrains (rotate_state g tid st) ! i)) = width (dimensions (terrains st ! i))"
    and "height (dimensions (terrains (rotate_state g tid st) ! i)) = height (dimensions (terrains st ! i))"
    and "gridPosition (terrains (rotate_state g tid st) ! i) = gridPosition (terrains st ! i)"
proof -
  from assms have i: "i < length (terrains st)" by (simp add: findIndex_Some_less)
  have "map id_t (terrains (rotate_state g tid st)) = map id_t (terrains st)"
    using assms i by (simp add: rotate_state_def rotateTerrain_def Let_def map_update_same)
  then show "findIndex (\<lambda>t. id_t t = tid) (terrains (rotate_state g tid st)) = Some i"
    using assms
    by (simp only: findIndex_same_ids [of "terrains (rotate_state g tid st)" "terrains st" tid])
  show "rotation (terrains (rotate_state g tid st) ! i) = (rotation (terrains st ! i) + 1) mod 4"
    using assms i by (simp add: rotate_state_def rotateTerrain_def Let_def)
  show "width (dimensions (terrains (rotate_state g tid st) ! i)) = depth (dimensions (terrains st ! i))"
    using assms i by (simp add: rotate_state_def rotateTerrain_def Let_def)
  show "depth (dimensions (terrains (rotate_state g tid st) ! i)) = width (dimensions (terrains st ! i))"
    using assms i by (simp add: rotate_state_def rotateTerrain_def Let_def)
  show "height (dimensions (terrains (rotate_state g tid st) ! i)) = height (dimensions (terrains st ! i))"
    using assms i by (simp add: rotate_state_def rotateTerrain_def Let_def)
  show "gridPosition (terrains (rotate_state g tid st) ! i) = gridPosition (terrains st ! i)"
    using assms i by (simp add: rotate_state_def rotateTerrain_def Let_def)
qed

text \<open>
  Claim C8. Let the terrain that \<^verbatim>\<open>terrains.find\<close> yields for an id stand at index \<open>i\<close>,
  with its rotation one of the four quarter turns. After four clicks on Rotate for that id
  the same terrain is found at the same index, with the rotation and the dimensions it had
  at the start. This holds for every way the four calls complete, since the rotation and
  the swap are assigned before the position is looked at.
\<close>

theorem rotate_four_times:
  assumes f: "findIndex (\<lambda>t. id_t t = tid) (terrains st) = Some i"
    and r: "rotation (terrains st ! i) < 4"
  shows "findIndex (\<lambda>t. id_t t = tid)
           (terrains (rotate_state g tid (rotate_state g tid
              (rotate_state g tid (rotate_state g tid st))))) = Some i
       \<and> rotation (terrains (rotate_state g tid (rotate_state g tid
              (rotate_state g tid (rotate_state g tid st)))) ! i)
           = rotation (terrains st ! i)
       \<and> dimensions (terrains (rotate_state g tid (rotate_state g tid
              (rotate_state g tid (rotate_state g tid st)))) ! i)
           = dimensions (terrains st ! i)"
proof -
  let ?s1 = "rotate_state g tid st"
  let ?s2 = "rotate_state g tid ?s1"
  let ?s3 = "rotate_state g tid ?s2"
  let ?s4 = "rotate_state g tid ?s3"
  note f1 = rotate_state_step(1) [OF f, of g]
  note f2 = rotate_state_step(1) [OF f1, of g]
  note f3 = rotate_state_step(1) [OF f2, of g]
  note f4 = rotate_state_step(1) [OF f3, of g]
  have "rotation (terrains ?s4 ! i)
        = ((((rotation (terrains st ! i) + 1) mod 4 + 1) mod 4 + 1) mod 4 + 1) mod 4"
    by (simp only: rotate_state_step(2) [OF f3] rotate_state_step(2) [OF f2]
        rotate_state_step(2) [OF f1] rotate_state_step(2) [OF f])
  also have "\<dots> = rotation (terrains st ! i)"
    using r by presburger
  finally have rot: "rotation (terrains ?s4 ! i) = rotation (terrains st ! i)" .
  have w: "width (dimensions (terrains ?s4 ! i)) = width (dimensions (terrains st ! i))"
    by (simp only: rotate_state_step(3,4) [OF f3] rotate_state_step(3,4) [OF f2]
        rotate_state_step(3,4) [OF f1] rotate_state_step(3,4) [OF f])
  have d: "depth (dimensions (terrains ?s4 ! i)) = depth (dimensions (terrains st ! i))"
    by (simp only: rotate_state_step(3,4) [OF f3] rotate_state_step(3,4) [OF f2]
        rotate_state_step(3,4) [OF f1] rotate_state_step(3,4) [OF f])
  have h: "height (dimensions (terrains ?s4 ! i)) = height (dimensions (terrains st ! i))"
    by (simp only: rotate_state_step(5) [OF f3] rotate_state_step(5) [OF f2]
        rotate_state_step(5) [OF f1] rotate_state_step(5) [OF f])
  from w d h have "dimensions (terrains ?s4 ! i) = dimensions (terrains st ! i)"
    by (simp add: dimensions_t.equality)
  with rot f4 show ?thesis by simp
qed

theorem rotate_four_times_witness:
  "findIndex (\<lambda>t. id_t t = 1) (terrains state_two) = Some 0
   \<and> rotation (terrains state_two ! 0) < 4
   \<and> rotation (terrains (rotate_state grid_init 1 state_two) ! 0) = 1
   \<and> dimensions (terrains (rotate_state grid_init 1 state_two) ! 0)
       = \<lparr>width = 30, depth = 10, height = 1\<rparr>
   \<and> rotation (terrains (rotate_state grid_init 1 (rotate_state grid_init 1
         (rotate_state grid_init 1 (rotate_state grid_init 1 state_two)))) ! 0) = 0
   \<and> dimensions (terrains (rotate_state grid_init 1 (rotate_state grid_init 1
         (rotate_state grid_init 1 (rotate_state grid_init 1 state_two)))) ! 0)
       = \<lparr>width = 10, depth = 30, height = 1\<rparr>"
proof -
  have f: "findIndex (\<lambda>t. id_t t = 1) (terrains state_two) = Some 0" by code_simp
  have r: "rotation (terrains state_two ! 0) < 4" by code_simp
  have start: "rotation (terrains state_two ! 0) = 0"
    "dimensions (terrains state_two ! 0) = \<lparr>width = 10, depth = 30, height = 1\<rparr>"
    by code_simp+
  have once: "rotation (terrains (rotate_state grid_init 1 state_two) ! 0) = 1"
    "dimensions (terrains (rotate_state grid_init 1 state_two) ! 0)
       = \<lparr>width = 30, depth = 10, height = 1\<rparr>"
    by code_simp+
  from rotate_four_times [OF f r, of grid_init] start f r once show ?thesis by simp
qed

text \<open>
  What \<^const>\<open>rotateTerrain\<close> does with the position: when the position the terrain had is
  valid for the swapped footprint, the call returns and the position is kept; when it is
  not, the call raises and the position is kept as well.
\<close>

lemma rotateTerrain_in_place:
  assumes "findIndex (\<lambda>t. id_t t = tid) (terrains st) = Some i"
  shows "fst (rotateTerrain g tid st) = Inr () \<longleftrightarrow>
           isValidGridPosition g
             ((terrains st)[i := (terrains st ! i)
                \<lparr>rotation := (rotation (terrains st ! i) + 1) mod 4,
                 dimensions := (dimensions (terrains st ! i))
                   \<lparr>width := depth (dimensions (terrains st ! i)),
                    depth := width (dimensions (terrains st ! i))\<rparr>\<rparr>])
             (x_g (gridPosition (terrains st ! i))) (z_g (gridPosition (terrains st ! i)))
             \<lceil>depth (dimensions (terrains st ! i)) / cellSize g\<rceil>
             \<lceil>width (dimensions (terrains st ! i)) / cellSize g\<rceil> tid"
    and "fst (rotateTerrain g tid st) = Inr () \<or> fst (rotateTerrain g tid st) = Inl ReferenceError"
    and "gridPosition (terrains (snd (rotateTerrain g tid st)) ! i) = gridPosition (terrains st ! i)"
proof -
  from assms have i: "i < length (terrains st)" "id_t (terrains st ! i) = tid"
    using findIndex_Some_less [of "\<lambda>t. id_t t = tid" "terrains st" i] by simp_all
  with assms show "fst (rotateTerrain g tid st) = Inr () \<longleftrightarrow>
           isValidGridPosition g
             ((terrains st)[i := (terrains st ! i)
                \<lparr>rotation := (rotation (terrains st ! i) + 1) mod 4,
                 dimensions := (dimensions (terrains st ! i))
                   \<lparr>width := depth (dimensions (terrains st ! i)),
                    depth := width (dimensions (terrains st ! i))\<rparr>\<rparr>])
             (x_g (gridPosition (terrains st ! i))) (z_g (gridPosition (terrains st ! i)))
             \<lceil>depth (dimensions (terrains st ! i)) / cellSize g\<rceil>
             \<lceil>width (dimensions (terrains st ! i)) / cellSize g\<rceil> tid"
    by (simp add: rotateTerrain_def Let_def cellsWide_def cellsDeep_def)
  from assms show "fst (rotateTerrain g tid st) = Inr () \<or>
      fst (rotateTerrain g tid st) = Inl ReferenceError"
    by (simp add: rotateTerrain_def Let_def)
  from rotate_state_step(6) [OF assms, of g]
  show "gridPosition (terrains (snd (rotateTerrain g tid st)) ! i) = gridPosition (terrains st ! i)"
    by (simp add: rotate_state_def)
qed

text \<open>
  Claim C2, evaluated on the script. In \<^const>\<open>state_two\<close> the terrain with id 1 has
  \<open>1 \<times> 3\<close> cells at \<open>(-10, -10)\<close> and the terrain with id 2 has one cell at
  \<open>(-9, -10)\<close>. After the swap the first has \<open>3 \<times> 1\<close> cells, for which \<open>(-10, -10)\<close>
  is not valid any more, while \<open>(-10, -9)\<close>, one cell away, is. The call does not search:
  it raises \<^verbatim>\<open>ReferenceError\<close> and leaves both terrains at their positions, the first
  with the swapped dimensions.
\<close>

theorem rotateTerrain_missing_search:
  "map gridPosition (terrains state_two) = [\<lparr>x_g = - 10, z_g = - 10\<rparr>, \<lparr>x_g = - 9, z_g = - 10\<rparr>]
   \<and> fst (rotateTerrain grid_init 1 state_two) = Inl ReferenceError
   \<and> map gridPosition (terrains (snd (rotateTerrain grid_init 1 state_two)))
       = [\<lparr>x_g = - 10, z_g = - 10\<rparr>, \<lparr>x_g = - 9, z_g = - 10\<rparr>]
   \<and> dimensions (terrains (snd (rotateTerrain grid_init 1 state_two)) ! 0)
       = \<lparr>width = 30, depth = 10, height = 1\<rparr>
   \<and> \<not> isValidGridPosition grid_init (terrains (snd (rotateTerrain grid_init 1 state_two)))
         (- 10) (- 10) 3 1 1
   \<and> isValidGridPosition grid_init (terrains (snd (rotateTerrain grid_init 1 state_two)))
         (- 10) (- 9) 3 1 1"
  by code_simp

theorem rotateTerrain_missing_search_witness:
  "fst (rotateTerrain grid_init 1 state_two) \<noteq> Inr ()"
  using rotateTerrain_missing_search by simp

section \<open>The world position\<close>

lemma terrains_loadTerrain:
  "terrains (loadTerrain g st t) = terrains st @ [positionTerrainOnGrid g (terrains st @ [t]) t]"
  by (simp add: loadTerrain_def Let_def)

lemma world_centered_loadTerrain:
  "world_centered g (terrains (loadTerrain g st t) ! length (terrains st))"
  by (simp add: terrains_loadTerrain positionTerrainOnGrid_def world_centered_updateTerrainPosition)

lemma world_centered_onMouseMove:
  assumes "selectedTerrain st = Some i" "i < length (terrains st)" "isDragging st"
    and "isValidGridPosition g (terrains st)
            (round ((ix - dragOffset_x st) / cellSize g))
            (round ((iz - dragOffset_z st) / cellSize g))
            (cellsWide g (terrains st ! i)) (cellsDeep g (terrains st ! i))
            (id_t (terrains st ! i))"
  shows "world_centered g (terrains (onMouseMove g st ix iz) ! i)"
    and "gridPosition (terrains (onMouseMove g st ix iz) ! i)
         = \<lparr>x_g = round ((ix - dragOffset_x st) / cellSize g),
            z_g = round ((iz - dragOffset_z st) / cellSize g)\<rparr>"
  using assms by (simp_all add: onMouseMove_def Let_def world_centered_updateTerrainPosition)

lemma world_centered_rotateTerrain:
  assumes "findIndex (\<lambda>t. id_t t = tid) (terrains st) = Some i"
    and "fst (rotateTerrain g tid st) = Inr ()"
  shows "world_centered g (terrains (snd (rotateTerrain g tid st)) ! i)"
proof -
  from assms(1) have i: "i < length (terrains st)" by (simp add: findIndex_Some_less)
  with assms show ?thesis
    by (simp add: rotateTerrain_def Let_def world_centered_updateTerrainPosition split: if_splits)
qed

lemma world_centered_margins:
  assumes "0 < cellSize g" "world_centered g t"
  shows "0 \<le> position_x (model t) - of_int (x_g (gridPosition t)) * cellSize g"
    and "position_x (model t) - of_int (x_g (gridPosition t)) * cellSize g
         = of_int (x_g (gridPosition t) + cellsWide g t) * cellSize g
           - (position_x (model t) + width (dimensions t))"
    and "0 \<le> position_z (model t) - of_int (z_g (gridPosition t)) * cellSize g"
    and "position_z (model t) - of_int (z_g (gridPosition t)) * cellSize g
         = of_int (z_g (gridPosition t) + cellsDeep g t) * cellSize g
           - (position_z (model t) + depth (dimensions t))"
proof -
  have le: "a \<le> of_int \<lceil>a / cellSize g\<rceil> * cellSize g" for a :: real
  proof -
    have "a / cellSize g \<le> of_int \<lceil>a / cellSize g\<rceil>" by (rule le_of_int_ceiling)
    with assms(1) show ?thesis by (simp only: pos_divide_le_eq)
  qed
  from assms(2) le [of "width (dimensions t)"]
  show "0 \<le> position_x (model t) - of_int (x_g (gridPosition t)) * cellSize g"
    by (simp add: world_centered_def)
  from assms(2) le [of "depth (dimensions t)"]
  show "0 \<le> position_z (model t) - of_int (z_g (gridPosition t)) * cellSize g"
    by (simp add: world_centered_def)
  from assms(2)
  show "position_x (model t) - of_int (x_g (gridPosition t)) * cellSize g
         = of_int (x_g (gridPosition t) + cellsWide g t) * cellSize g
           - (position_x (model t) + width (dimensions t))"
    by (simp add: world_centered_def cellsWide_def algebra_simps)
  from assms(2)
  show "position_z (model t) - of_int (z_g (gridPosition t)) * cellSize g
         = of_int (z_g (gridPosition t) + cellsDeep g t) * cellSize g
           - (position_z (model t) + depth (dimensions t))"
    by (simp add: world_centered_def cellsDeep_def algebra_simps)
qed

text \<open>
  \<^const>\<open>updateTerrainPosition\<close> keeps grid position and dimensions and sets the world
  position to \<open>gridPosition * cellSize + (cells * cellSize - dimension) / 2\<close> on both
  axes, with \<open>cells = \<lceil>dimension / cellSize\<rceil>\<close>. The terrain just loaded, the terrain
  moved by an accepted drag, and the terrain of a rotation that returned all have this world
  position for the grid position and dimensions they have then. For a positive cell size
  the footprint so placed lies inside the block of occupied cells with the same margin on
  both sides.
\<close>

lemma world_position_on_commit:
  "world_centered g (updateTerrainPosition g t)
   \<and> gridPosition (updateTerrainPosition g t) = gridPosition t
   \<and> dimensions (updateTerrainPosition g t) = dimensions t
   \<and> world_centered g (terrains (loadTerrain g st t) ! length (terrains st))
   \<and> (selectedTerrain st = Some i \<and> i < length (terrains st) \<and> isDragging st \<and>
       isValidGridPosition g (terrains st)
         (round ((ix - dragOffset_x st) / cellSize g))
         (round ((iz - dragOffset_z st) / cellSize g))
         (cellsWide g (terrains st ! i)) (cellsDeep g (terrains st ! i))
         (id_t (terrains st ! i))
       \<longrightarrow> gridPosition (terrains (onMouseMove g st ix iz) ! i)
             = \<lparr>x_g = round ((ix - dragOffset_x st) / cellSize g),
                z_g = round ((iz - dragOffset_z st) / cellSize g)\<rparr>
           \<and> world_centered g (terrains (onMouseMove g st ix iz) ! i))
   \<and> (findIndex (\<lambda>t. id_t t = tid) (terrains st) = Some k \<and>
       fst (rotateTerrain g tid st) = Inr ()
       \<longrightarrow> world_centered g (terrains (snd (rotateTerrain g tid st)) ! k))
   \<and> (0 < cellSize g \<and> world_centered g u
       \<longrightarrow> 0 \<le> position_x (model u) - of_int (x_g (gridPosition u)) * cellSize g
           \<and> position_x (model u) - of_int (x_g (gridPosition u)) * cellSize g
             = of_int (x_g (gridPosition u) + cellsWide g u) * cellSize g
               - (position_x (model u) + width (dimensions u))
           \<and> 0 \<le> position_z (model u) - of_int (z_g (gridPosition u)) * cellSize g
           \<and> position_z (model u) - of_int (z_g (gridPosition u)) * cellSize g
             = of_int (z_g (gridPosition u) + cellsDeep g u) * cellSize g
               - (position_z (model u) + depth (dimensions u)))"
proof (intro conjI impI)
  show "world_centered g (updateTerrainPosition g t)"
    by (rule world_centered_updateTerrainPosition)
  show "gridPosition (updateTerrainPosition g t) = gridPosition t" by simp
  show "dimensions (updateTerrainPosition g t) = dimensions t" by simp
  show "world_centered g (terrains (loadTerrain g st t) ! length (terrains st))"
    by (rule world_centered_loadTerrain)
next
  assume a: "selectedTerrain st = Some i \<and> i < length (terrains st) \<and> isDragging st \<and>
       isValidGridPosition g (terrains st)
         (round ((ix - dragOffset_x st) / cellSize g))
         (round ((iz - dragOffset_z st) / cellSize g))
         (cellsWide g (terrains st ! i)) (cellsDeep g (terrains st ! i))
         (id_t (terrains st ! i))"
  then show "gridPosition (terrains (onMouseMove g st ix iz) ! i)
             = \<lparr>x_g = round ((ix - dragOffset_x st) / cellSize g),
                z_g = round ((iz - dragOffset_z st) / cellSize g)\<rparr>"
    by (simp add: world_centered_onMouseMove(2))
  from a show "world_centered g (terrains (onMouseMove g st ix iz) ! i)"
    by (simp add: world_centered_onMouseMove(1))
next
  assume "findIndex (\<lambda>t. id_t t = tid) (terrains st) = Some k \<and>
       fst (rotateTerrain g tid st) = Inr ()"
  then show "world_centered g (terrains (snd (rotateTerrain g tid st)) ! k)"
    by (simp add: world_centered_rotateTerrain)
next
  assume m: "0 < cellSize g \<and> world_centered g u"
  then show "0 \<le> position_x (model u) - of_int (x_g (gridPosition u)) * cellSize g"
    by (intro world_centered_margins(1)) simp_all
  from m show "position_x (model u) - of_int (x_g (gridPosition u)) * cellSize g
             = of_int (x_g (gridPosition u) + cellsWide g u) * cellSize g
               - (position_x (model u) + width (dimensions u))"
    by (intro world_centered_margins(2)) simp_all
  from m show "0 \<le> position_z (model u) - of_int (z_g (gridPosition u)) * cellSize g"
    by (intro world_centered_margins(3)) simp_all
  from m show "position_z (model u) - of_int (z_g (gridPosition u)) * cellSize g
             = of_int (z_g (gridPosition u) + cellsDeep g u) * cellSize g
               - (position_z (model u) + depth (dimensions u))"
    by (intro world_centered_margins(4)) simp_all
qed

text \<open>
  Claim C9, evaluated on the script. In \<^const>\<open>state_oblong\<close> the terrain with id 1 has
  \<open>2 \<times> 3\<close> cells at \<open>(-10, -10)\<close> and the centred world position \<open>(-96, -97.5)\<close>.
  Rotating it stores the rotation 1 and the dimensions \<open>25 \<times> 12\<close>, finds the position
  taken by the second terrain at \<open>(-8, -10)\<close> and raises at line 447, so line 452 is not
  reached: the world position is still \<open>(-96, -97.5)\<close>, where the formula gives
  \<open>(-97.5, -96)\<close> for the dimensions the terrain has now.
\<close>

theorem rotation_leaves_world_position_stale:
  "map gridPosition (terrains state_oblong) = [\<lparr>x_g = - 10, z_g = - 10\<rparr>, \<lparr>x_g = - 8, z_g = - 10\<rparr>]
   \<and> world_centered grid_init (terrains state_oblong ! 0)
   \<and> fst (rotateTerrain grid_init 1 state_oblong) = Inl ReferenceError
   \<and> rotation (terrains (rotate_state grid_init 1 state_oblong) ! 0) = 1
   \<and> dimensions (terrains (rotate_state grid_init 1 state_oblong) ! 0)
       = \<lparr>width = 25, depth = 12, height = 1\<rparr>
   \<and> gridPosition (terrains (rotate_state grid_init 1 state_oblong) ! 0)
       = \<lparr>x_g = - 10, z_g = - 10\<rparr>
   \<and> position_x (model (terrains (rotate_state grid_init 1 state_oblong) ! 0)) = - 96
   \<and> position_z (model (terrains (rotate_state grid_init 1 state_oblong) ! 0)) = - 195 / 2
   \<and> position_x (model (updateTerrainPosition grid_init
         (terrains (rotate_state grid_init 1 state_oblong) ! 0))) = - 195 / 2
   \<and> position_z (model (updateTerrainPosition grid_init
         (terrains (rotate_state grid_init 1 state_oblong) ! 0))) = - 96
   \<and> \<not> world_centered grid_init (terrains (rotate_state grid_init 1 state_oblong) ! 0)"
  by code_simp

theorem rotation_leaves_world_position_stale_witness:
  "position_x (model (terrains (rotate_state grid_init 1 state_oblong) ! 0))
     \<noteq> position_x (model (updateTerrainPosition grid_init
           (terrains (rotate_state grid_init 1 state_oblong) ! 0)))"
  using rotation_leaves_world_position_stale by simp

section \<open>The registry invariants\<close>

lemma terrain_cells_updateTerrainPosition [simp]:
  "terrain_cells g (updateTerrainPosition g' t) = terrain_cells g t"
  by (simp add: terrain_cells_def)

lemma valid_no_overlap:
  assumes "isValidGridPosition g ts (x_g (gridPosition t')) (z_g (gridPosition t'))
             (cellsWide g t') (cellsDeep g t') (id_t t')"
    and "u \<in> set ts" "id_t u \<noteq> id_t t'"
  shows "terrain_cells g t' \<inter> terrain_cells g u = {}"
proof -
  from assms have "noOverlap (x_g (gridPosition t')) (z_g (gridPosition t'))
      (cellsWide g t') (cellsDeep g t')
      (x_g (gridPosition u)) (z_g (gridPosition u)) (cellsWide g u) (cellsDeep g u)"
    by (auto simp: isValidGridPosition_def isPositionOccupied_iff)
  then show ?thesis
    unfolding terrain_cells_def by (rule noOverlap_disjoint)
qed

text \<open>
  The common step of all three commits: the terrain at index \<open>i\<close> is replaced by one with
  the same id whose rectangle passed \<^const>\<open>isValidGridPosition\<close> against a registry
  that agrees with the present one everywhere but at \<open>i\<close>.
\<close>

lemma commit_preserves:
  assumes i: "i < length ts"
    and others: "\<forall>a < length ts. \<forall>b < length ts. a \<noteq> b \<longrightarrow> a \<noteq> i \<longrightarrow> b \<noteq> i \<longrightarrow>
                   terrain_cells g (ts ! a) \<inter> terrain_cells g (ts ! b) = {}"
    and bound: "\<forall>a < length ts. a \<noteq> i \<longrightarrow>
                   x_g (gridPosition (ts ! a)) + cellsWide g (ts ! a) \<le> size_g g \<and>
                   z_g (gridPosition (ts ! a)) + cellsDeep g (ts ! a) \<le> size_g g"
    and dist: "distinct (map id_t ts)"
    and same_id: "id_t t' = id_t (ts ! i)"
    and len: "length ts' = length ts"
    and agree: "\<forall>a < length ts. a \<noteq> i \<longrightarrow> ts' ! a = ts ! a"
    and valid: "isValidGridPosition g ts' (x_g (gridPosition t')) (z_g (gridPosition t'))
                  (cellsWide g t') (cellsDeep g t') (id_t t')"
  shows "registry_inv g (ts[i := t'])"
  unfolding registry_inv_def
proof (intro conjI)
  have free: "terrain_cells g t' \<inter> terrain_cells g (ts ! a) = {}"
    if "a < length ts" "a \<noteq> i" for a
  proof -
    from that len agree have "ts ! a \<in> set ts'" by (metis nth_mem)
    moreover from that i dist same_id have "id_t (ts ! a) \<noteq> id_t t'"
      by (simp add: distinct_conv_nth)
    ultimately show ?thesis using valid by (rule valid_no_overlap [rotated])
  qed
  show "NO_OVERLAP g (ts[i := t'])"
    unfolding NO_OVERLAP_def
  proof (intro ballI impI)
    fix a b
    assume "a \<in> {..< length (ts[i := t'])}" "b \<in> {..< length (ts[i := t'])}" "a \<noteq> b"
    then have ab: "a < length ts" "b < length ts" "a \<noteq> b" by simp_all
    show "terrain_cells g (ts[i := t'] ! a) \<inter> terrain_cells g (ts[i := t'] ! b) = {}"
    proof (cases "a = i")
      case True
      with ab free [of b] i show ?thesis by simp
    next
      case a: False
      show ?thesis
      proof (cases "b = i")
        case True
        with ab a free [of a] i show ?thesis by (simp add: Int_commute)
      next
        case False
        with a ab others show ?thesis by simp
      qed
    qed
  qed
  show "UPPER_BOUND g (ts[i := t'])"
    unfolding UPPER_BOUND_def
  proof
    fix t assume "t \<in> set (ts[i := t'])"
    then obtain a where a: "a < length ts" "t = ts[i := t'] ! a"
      by (auto simp: in_set_conv_nth)
    show "x_g (gridPosition t) + cellsWide g t \<le> size_g g \<and>
          z_g (gridPosition t) + cellsDeep g t \<le> size_g g"
    proof (cases "a = i")
      case True
      with a i valid show ?thesis by (simp add: isValidGridPosition_def)
    next
      case False
      with a bound show ?thesis by simp
    qed
  qed
  from i same_id dist show "distinct (map id_t (ts[i := t']))"
    by (simp add: map_update_same)
qed

lemma registry_inv_nth:
  assumes "registry_inv g ts"
  shows "\<forall>a < length ts. \<forall>b < length ts. a \<noteq> b \<longrightarrow>
           terrain_cells g (ts ! a) \<inter> terrain_cells g (ts ! b) = {}"
    and "\<forall>a < length ts. x_g (gridPosition (ts ! a)) + cellsWide g (ts ! a) \<le> size_g g \<and>
                   z_g (gridPosition (ts ! a)) + cellsDeep g (ts ! a) \<le> size_g g"
    and "distinct (map id_t ts)"
  using assms by (auto simp: registry_inv_def NO_OVERLAP_def UPPER_BOUND_def)

lemma find_Some_set: "List.find P xs = Some a \<Longrightarrow> a \<in> set xs \<and> P a"
  by (induction xs) (auto split: if_splits)

lemma z_loop_Some_valid:
  assumes "findAvailable_z_loop g ts cw cd ex sr z0 = Some p"
  shows "isValidGridPosition g ts (x_g p) (z_g p) cw cd ex"
proof -
  let ?L = "concat (map (\<lambda>z. map (\<lambda>x. (x, z)) [- sr .. size_g g - cw]) [z0 .. size_g g - cd])"
  from assms obtain x z where
    f: "List.find (\<lambda>(x, z). \<not> isPositionOccupied g ts x z cw cd ex) ?L = Some (x, z)"
    and p: "p = \<lparr>x_g = x, z_g = z\<rparr>"
    by (auto simp: z_loop_find)
  from find_Some_set [OF f] have "(x, z) \<in> set ?L" "\<not> isPositionOccupied g ts x z cw cd ex"
    by auto
  then show ?thesis
    by (auto simp: p isValidGridPosition_def)
qed

text \<open>The fallback is taken exactly when every scanned position is occupied.\<close>

lemma fallback_only_when_full:
  "findAvailable_z_loop g ts cw cd ex (size_g g) (- size_g g) = None \<longleftrightarrow>
     (\<forall>(x, z) \<in> set (scan_order g cw cd). isPositionOccupied g ts x z cw cd ex)"
  by (auto simp: z_loop_find scan_order_def find_None_iff)

lemma isValid_found_position:
  assumes "findAvailable_z_loop g ts (cellsWide g t) (cellsDeep g t) (id_t t)
             (size_g g) (- size_g g) \<noteq> None"
  shows "isValidGridPosition g ts (x_g (findAvailableGridPosition g ts t))
           (z_g (findAvailableGridPosition g ts t)) (cellsWide g t) (cellsDeep g t) (id_t t)"
  using assms by (auto simp: findAvailableGridPosition_def Let_def dest: z_loop_Some_valid)

text \<open>
  A placement that does not take the fallback keeps the invariant, for a new terrain whose
  id is not in the registry yet.
\<close>

lemma loadTerrain_preserves:
  assumes inv: "registry_inv g (terrains st)"
    and fresh: "id_t t \<notin> id_t ` set (terrains st)"
    and found: "findAvailable_z_loop g (terrains st @ [t]) (cellsWide g t) (cellsDeep g t)
                  (id_t t) (size_g g) (- size_g g) \<noteq> None"
  shows "registry_inv g (terrains (loadTerrain g st t))"
proof -
  let ?ts = "terrains st" and ?ts1 = "terrains st @ [t]"
  let ?t' = "positionTerrainOnGrid g ?ts1 t"
  have valid: "isValidGridPosition g ?ts1 (x_g (gridPosition ?t')) (z_g (gridPosition ?t'))
                 (cellsWide g ?t') (cellsDeep g ?t') (id_t ?t')"
    using isValid_found_position [OF found]
    by (simp add: positionTerrainOnGrid_def cellsWide_def cellsDeep_def)
  have "registry_inv g (?ts1[length ?ts := ?t'])"
  proof (rule commit_preserves [where ts' = ?ts1])
    show "length ?ts < length ?ts1" by simp
    show "\<forall>a < length ?ts1. \<forall>b < length ?ts1. a \<noteq> b \<longrightarrow> a \<noteq> length ?ts \<longrightarrow> b \<noteq> length ?ts \<longrightarrow>
            terrain_cells g (?ts1 ! a) \<inter> terrain_cells g (?ts1 ! b) = {}"
      using registry_inv_nth(1) [OF inv] by (auto simp: nth_append)
    show "\<forall>a < length ?ts1. a \<noteq> length ?ts \<longrightarrow>
            x_g (gridPosition (?ts1 ! a)) + cellsWide g (?ts1 ! a) \<le> size_g g \<and>
            z_g (gridPosition (?ts1 ! a)) + cellsDeep g (?ts1 ! a) \<le> size_g g"
      using registry_inv_nth(2) [OF inv] by (auto simp: nth_append)
    show "distinct (map id_t ?ts1)"
      using registry_inv_nth(3) [OF inv] fresh by auto
    show "id_t ?t' = id_t (?ts1 ! length ?ts)"
      by (simp add: positionTerrainOnGrid_def)
    show "length ?ts1 = length ?ts1" ..
    show "\<forall>a < length ?ts1. a \<noteq> length ?ts \<longrightarrow> ?ts1 ! a = ?ts1 ! a" by simp
    show "isValidGridPosition g ?ts1 (x_g (gridPosition ?t')) (z_g (gridPosition ?t'))
                 (cellsWide g ?t') (cellsDeep g ?t') (id_t ?t')"
      by (rule valid)
  qed
  then show ?thesis
    by (simp add: loadTerrain_def Let_def)
qed

text \<open>A drag move, accepted or not, keeps the invariant.\<close>

lemma onMouseMove_preserves:
  assumes inv: "registry_inv g (terrains st)"
  shows "registry_inv g (terrains (onMouseMove g st ix iz))"
proof (cases "onMouseMove g st ix iz = st")
  case True
  with inv show ?thesis by simp
next
  case False
  then obtain i where sel: "selectedTerrain st = Some i" and i: "i < length (terrains st)"
    by (auto simp: onMouseMove_def Let_def split: option.splits if_splits)
  let ?ts = "terrains st"
  let ?gx = "round ((ix - dragOffset_x st) / cellSize g)"
  let ?gz = "round ((iz - dragOffset_z st) / cellSize g)"
  let ?t' = "updateTerrainPosition g ((?ts ! i)\<lparr>gridPosition := \<lparr>x_g = ?gx, z_g = ?gz\<rparr>\<rparr>)"
  from False sel i have valid: "isValidGridPosition g ?ts ?gx ?gz
      (cellsWide g (?ts ! i)) (cellsDeep g (?ts ! i)) (id_t (?ts ! i))"
    by (auto simp: onMouseMove_def Let_def split: if_splits)
  with False sel i have eq: "terrains (onMouseMove g st ix iz) = ?ts[i := ?t']"
    by (auto simp: onMouseMove_def Let_def split: if_splits)
  have "registry_inv g (?ts[i := ?t'])"
  proof (rule commit_preserves [where ts' = ?ts])
    show "i < length ?ts" by (rule i)
    show "\<forall>a < length ?ts. \<forall>b < length ?ts. a \<noteq> b \<longrightarrow> a \<noteq> i \<longrightarrow> b \<noteq> i \<longrightarrow>
            terrain_cells g (?ts ! a) \<inter> terrain_cells g (?ts ! b) = {}"
      using registry_inv_nth(1) [OF inv] by simp
    show "\<forall>a < length ?ts. a \<noteq> i \<longrightarrow>
            x_g (gridPosition (?ts ! a)) + cellsWide g (?ts ! a) \<le> size_g g \<and>
            z_g (gridPosition (?ts ! a)) + cellsDeep g (?ts ! a) \<le> size_g g"
      using registry_inv_nth(2) [OF inv] by simp
    show "distinct (map id_t ?ts)" by (rule registry_inv_nth(3) [OF inv])
    show "id_t ?t' = id_t (?ts ! i)" by simp
    show "length ?ts = length ?ts" ..
    show "\<forall>a < length ?ts. a \<noteq> i \<longrightarrow> ?ts ! a = ?ts ! a" by simp
    show "isValidGridPosition g ?ts (x_g (gridPosition ?t')) (z_g (gridPosition ?t'))
                 (cellsWide g ?t') (cellsDeep g ?t') (id_t ?t')"
      using valid by (simp add: cellsWide_def cellsDeep_def)
  qed
  with eq show ?thesis by simp
qed

text \<open>A rotation that returns keeps the invariant.\<close>

lemma rotateTerrain_returned_preserves:
  assumes inv: "registry_inv g (terrains st)"
    and ok: "fst (rotateTerrain g tid st) = Inr ()"
  shows "registry_inv g (terrains (snd (rotateTerrain g tid st)))"
proof (cases "findIndex (\<lambda>t. id_t t = tid) (terrains st)")
  case None
  with inv show ?thesis by (simp add: rotateTerrain_def)
next
  case (Some i)
  then have i: "i < length (terrains st)" by (simp add: findIndex_Some_less)
  let ?ts = "terrains st"
  let ?t = "?ts ! i"
  let ?t2 = "?t\<lparr>rotation := (rotation ?t + 1) mod 4,
               dimensions := (dimensions ?t)
                 \<lparr>width := depth (dimensions ?t), depth := width (dimensions ?t)\<rparr>\<rparr>"
  let ?t' = "updateTerrainPosition g (?t2\<lparr>gridPosition := gridPosition ?t\<rparr>)"
  from ok Some have valid: "isValidGridPosition g (?ts[i := ?t2]) (x_g (gridPosition ?t))
      (z_g (gridPosition ?t)) (cellsWide g ?t2) (cellsDeep g ?t2) (id_t ?t2)"
    by (auto simp: rotateTerrain_def Let_def split: if_splits)
  with Some have eq: "terrains (snd (rotateTerrain g tid st)) = ?ts[i := ?t']"
    by (simp add: rotateTerrain_def Let_def)
  have "registry_inv g (?ts[i := ?t'])"
  proof (rule commit_preserves [where ts' = "?ts[i := ?t2]"])
    show "i < length ?ts" by (rule i)
    show "\<forall>a < length ?ts. \<forall>b < length ?ts. a \<noteq> b \<longrightarrow> a \<noteq> i \<longrightarrow> b \<noteq> i \<longrightarrow>
            terrain_cells g (?ts ! a) \<inter> terrain_cells g (?ts ! b) = {}"
      using registry_inv_nth(1) [OF inv] by simp
    show "\<forall>a < length ?ts. a \<noteq> i \<longrightarrow>
            x_g (gridPosition (?ts ! a)) + cellsWide g (?ts ! a) \<le> size_g g \<and>
            z_g (gridPosition (?ts ! a)) + cellsDeep g (?ts ! a) \<le> size_g g"
      using registry_inv_nth(2) [OF inv] by simp
    show "distinct (map id_t ?ts)" by (rule registry_inv_nth(3) [OF inv])
    show "id_t ?t' = id_t (?ts ! i)" by simp
    show "length (?ts[i := ?t2]) = length ?ts" by simp
    show "\<forall>a < length ?ts. a \<noteq> i \<longrightarrow> ?ts[i := ?t2] ! a = ?ts ! a" by simp
    show "isValidGridPosition g (?ts[i := ?t2]) (x_g (gridPosition ?t')) (z_g (gridPosition ?t'))
                 (cellsWide g ?t') (cellsDeep g ?t') (id_t ?t')"
      using valid by (simp add: cellsWide_def cellsDeep_def)
  qed
  with eq show ?thesis by simp
qed

text \<open>
  Claim C1, evaluated on the script. Both placements that lead to \<^const>\<open>state_two\<close> return
  a position found by the scan, not the fallback, and \<^const>\<open>state_two\<close> satisfies the
  invariant. Rotating the terrain with id 1 then raises \<^verbatim>\<open>ReferenceError\<close> after the
  swap of its dimensions, and in the state left behind the cell \<open>(-9, -10)\<close> belongs to
  both terrains: NO-OVERLAP is broken by a sequence of two placements and one rotation.
\<close>

theorem rotation_breaks_no_overlap:
  "findAvailable_z_loop grid_init (terrains state_init @ [tall_terrain])
       (cellsWide grid_init tall_terrain) (cellsDeep grid_init tall_terrain)
       (id_t tall_terrain) (size_g grid_init) (- size_g grid_init)
     = Some \<lparr>x_g = - 10, z_g = - 10\<rparr>
   \<and> findAvailable_z_loop grid_init
       (terrains (loadTerrain grid_init state_init tall_terrain) @ [unit_terrain])
       (cellsWide grid_init unit_terrain) (cellsDeep grid_init unit_terrain)
       (id_t unit_terrain) (size_g grid_init) (- size_g grid_init)
     = Some \<lparr>x_g = - 9, z_g = - 10\<rparr>
   \<and> registry_inv grid_init (terrains state_two)
   \<and> fst (rotateTerrain grid_init 1 state_two) = Inl ReferenceError
   \<and> (- 9, - 10) \<in> terrain_cells grid_init (terrains (rotate_state grid_init 1 state_two) ! 0)
   \<and> (- 9, - 10) \<in> terrain_cells grid_init (terrains (rotate_state grid_init 1 state_two) ! 1)
   \<and> \<not> NO_OVERLAP grid_init (terrains (rotate_state grid_init 1 state_two))"
proof (intro conjI)
  show "findAvailable_z_loop grid_init (terrains state_init @ [tall_terrain])
       (cellsWide grid_init tall_terrain) (cellsDeep grid_init tall_terrain)
       (id_t tall_terrain) (size_g grid_init) (- size_g grid_init)
     = Some \<lparr>x_g = - 10, z_g = - 10\<rparr>"
    by code_simp
  show "findAvailable_z_loop grid_init
       (terrains (loadTerrain grid_init state_init tall_terrain) @ [unit_terrain])
       (cellsWide grid_init unit_terrain) (cellsDeep grid_init unit_terrain)
       (id_t unit_terrain) (size_g grid_init) (- size_g grid_init)
     = Some \<lparr>x_g = - 9, z_g = - 10\<rparr>"
    by code_simp
  show "registry_inv grid_init (terrains state_two)" by code_simp
  show "fst (rotateTerrain grid_init 1 state_two) = Inl ReferenceError" by code_simp
  show "(- 9, - 10) \<in> terrain_cells grid_init (terrains (rotate_state grid_init 1 state_two) ! 0)"
    by code_simp
  show "(- 9, - 10) \<in> terrain_cells grid_init (terrains (rotate_state grid_init 1 state_two) ! 1)"
    by code_simp
  show "\<not> NO_OVERLAP grid_init (terrains (rotate_state grid_init 1 state_two))" by code_simp
qed

theorem rotation_breaks_no_overlap_witness:
  "\<not> registry_inv grid_init (terrains (rotate_state grid_init 1 state_two))"
  using rotation_breaks_no_overlap by (simp add: registry_inv_def)

section \<open>Degenerate footprints\<close>

text \<open>
  Claim C6 as stated fails. The terrain with an empty bounding box has \<open>0 \<times> 0\<close> cells.
  Loaded after the terrain of one cell that stands at \<open>(-10, -10)\<close>, it is put at
  \<open>(-10, -10)\<close> as well: the rectangle tested there is the one of size zero, which is
  free, where a rectangle of one cell would have been found occupied.
\<close>

theorem zero_footprint_counterexample:
  "cellsWide grid_init flat_terrain = 0 \<and> cellsDeep grid_init flat_terrain = 0
   \<and> map gridPosition (terrains state_unit) = [\<lparr>x_g = - 10, z_g = - 10\<rparr>]
   \<and> map gridPosition (terrains (loadTerrain grid_init state_unit flat_terrain))
       = [\<lparr>x_g = - 10, z_g = - 10\<rparr>, \<lparr>x_g = - 10, z_g = - 10\<rparr>]
   \<and> isPositionOccupied grid_init (terrains state_unit @ [flat_terrain]) (- 10) (- 10) 1 1
       (id_t flat_terrain)"
  by code_simp

lemma cells_zero_iff:
  assumes "0 < c" "0 \<le> a"
  shows "0 \<le> \<lceil>a / c\<rceil>" and "\<lceil>a / c\<rceil> = 0 \<longleftrightarrow> a = (0::real)"
proof -
  from assms have q: "0 \<le> a / c" by simp
  then show "0 \<le> \<lceil>a / c\<rceil>" by simp
  have "\<lceil>a / c\<rceil> = 0 \<longleftrightarrow> a / c \<le> 0"
    using q by (simp add: ceiling_eq_iff)
  also have "\<dots> \<longleftrightarrow> a = 0"
    using assms by (simp add: divide_le_0_iff)
  finally show "\<lceil>a / c\<rceil> = 0 \<longleftrightarrow> a = 0" .
qed

lemma found_or_fallback:
  "findAvailableGridPosition g ts t = \<lparr>x_g = 0, z_g = 0\<rparr> \<or>
   \<not> isPositionOccupied g ts (x_g (findAvailableGridPosition g ts t))
        (z_g (findAvailableGridPosition g ts t)) (cellsWide g t) (cellsDeep g t) (id_t t)"
proof (cases "findAvailable_z_loop g ts (cellsWide g t) (cellsDeep g t) (id_t t)
                (size_g g) (- size_g g)")
  case None
  then show ?thesis by (simp add: findAvailableGridPosition_def)
next
  case (Some p)
  then have "findAvailable_z_loop g ts (cellsWide g t) (cellsDeep g t) (id_t t)
               (size_g g) (- size_g g) \<noteq> None"
    by simp
  from isValid_found_position [OF this] show ?thesis
    by (simp add: isValidGridPosition_def)
qed

text \<open>
  Claim C6, amended. For a positive cell size and non-negative dimensions the cell counts
  are never negative, and a count is zero exactly when the dimension is zero. Placement
  uses the counts as computed, with no minimum: the position returned is the first one of
  the scan, with the bounds \<open>size - \<lceil>width / cellSize\<rceil>\<close> and
  \<open>size - \<lceil>depth / cellSize\<rceil>\<close>, at which the rectangle of
  \<open>\<lceil>width / cellSize\<rceil> \<times> \<lceil>depth / cellSize\<rceil>\<close> cells is not occupied, or \<open>(0, 0)\<close> if
  there is none; for a terrain of width and depth 0 this is the rectangle of size
  \<open>0 \<times> 0\<close>. The occupancy test takes the other terrains with their computed counts as
  well.
\<close>

theorem footprint_not_clamped:
  assumes "0 < cellSize g" and "0 \<le> width (dimensions t)" and "0 \<le> depth (dimensions t)"
  shows "0 \<le> cellsWide g t \<and> 0 \<le> cellsDeep g t
       \<and> (cellsWide g t = 0 \<longleftrightarrow> width (dimensions t) = 0)
       \<and> (cellsDeep g t = 0 \<longleftrightarrow> depth (dimensions t) = 0)
       \<and> findAvailableGridPosition g ts t =
           (case List.find
                   (\<lambda>(x, z). \<not> isPositionOccupied g ts x z
                      \<lceil>width (dimensions t) / cellSize g\<rceil> \<lceil>depth (dimensions t) / cellSize g\<rceil>
                      (id_t t))
                   (scan_order g \<lceil>width (dimensions t) / cellSize g\<rceil>
                      \<lceil>depth (dimensions t) / cellSize g\<rceil>) of
              Some (x, z) \<Rightarrow> \<lparr>x_g = x, z_g = z\<rparr>
            | None \<Rightarrow> \<lparr>x_g = 0, z_g = 0\<rparr>)
       \<and> (width (dimensions t) = 0 \<and> depth (dimensions t) = 0 \<longrightarrow>
            findAvailableGridPosition g ts t =
              (case List.find (\<lambda>(x, z). \<not> isPositionOccupied g ts x z 0 0 (id_t t))
                      (scan_order g 0 0) of
                 Some (x, z) \<Rightarrow> \<lparr>x_g = x, z_g = z\<rparr>
               | None \<Rightarrow> \<lparr>x_g = 0, z_g = 0\<rparr>))
       \<and> (isPositionOccupied g ts x z w d ex \<longleftrightarrow>
            (\<exists>u \<in> set ts. id_t u \<noteq> ex \<and>
               \<not> noOverlap x z w d (x_g (gridPosition u)) (z_g (gridPosition u))
                    \<lceil>width (dimensions u) / cellSize g\<rceil> \<lceil>depth (dimensions u) / cellSize g\<rceil>))"
proof -
  have scan: "findAvailableGridPosition g ts t =
           (case List.find
                   (\<lambda>(x, z). \<not> isPositionOccupied g ts x z
                      \<lceil>width (dimensions t) / cellSize g\<rceil> \<lceil>depth (dimensions t) / cellSize g\<rceil>
                      (id_t t))
                   (scan_order g \<lceil>width (dimensions t) / cellSize g\<rceil>
                      \<lceil>depth (dimensions t) / cellSize g\<rceil>) of
              Some (x, z) \<Rightarrow> \<lparr>x_g = x, z_g = z\<rparr>
            | None \<Rightarrow> \<lparr>x_g = 0, z_g = 0\<rparr>)"
    by (simp add: findAvailableGridPosition_eq_spec findFreePosition_spec_def
        cellsWide_def cellsDeep_def)
  have zero: "findAvailableGridPosition g ts t =
              (case List.find (\<lambda>(x, z). \<not> isPositionOccupied g ts x z 0 0 (id_t t))
                      (scan_order g 0 0) of
                 Some (x, z) \<Rightarrow> \<lparr>x_g = x, z_g = z\<rparr>
               | None \<Rightarrow> \<lparr>x_g = 0, z_g = 0\<rparr>)"
    if "width (dimensions t) = 0 \<and> depth (dimensions t) = 0"
    using that scan by simp
  have occ: "isPositionOccupied g ts x z w d ex \<longleftrightarrow>
            (\<exists>u \<in> set ts. id_t u \<noteq> ex \<and>
               \<not> noOverlap x z w d (x_g (gridPosition u)) (z_g (gridPosition u))
                    \<lceil>width (dimensions u) / cellSize g\<rceil> \<lceil>depth (dimensions u) / cellSize g\<rceil>)"
    by (simp add: isPositionOccupied_iff cellsWide_def cellsDeep_def)
  from cells_zero_iff [OF assms(1,2)] cells_zero_iff [OF assms(1,3)]
  have counts: "0 \<le> cellsWide g t \<and> 0 \<le> cellsDeep g t
       \<and> (cellsWide g t = 0 \<longleftrightarrow> width (dimensions t) = 0)
       \<and> (cellsDeep g t = 0 \<longleftrightarrow> depth (dimensions t) = 0)"
    unfolding cellsWide_def cellsDeep_def by blast
  from counts scan zero occ show ?thesis by blast
qed

theorem footprint_not_clamped_witness:
  "0 < cellSize grid_init \<and> 0 \<le> width (dimensions flat_terrain)
   \<and> 0 \<le> depth (dimensions flat_terrain)
   \<and> cellsWide grid_init flat_terrain = 0 \<and> cellsDeep grid_init flat_terrain = 0
   \<and> findAvailableGridPosition grid_init (terrains state_unit @ [flat_terrain]) flat_terrain
       = \<lparr>x_g = - 10, z_g = - 10\<rparr>
   \<and> (case List.find
              (\<lambda>(x, z). \<not> isPositionOccupied grid_init (terrains state_unit @ [flat_terrain])
                 x z 0 0 (id_t flat_terrain))
              (scan_order grid_init 0 0) of
         Some (x, z) \<Rightarrow> \<lparr>x_g = x, z_g = z\<rparr>
       | None \<Rightarrow> \<lparr>x_g = 0, z_g = 0\<rparr>) = \<lparr>x_g = - 10, z_g = - 10\<rparr>"
proof -
  have cs: "0 < cellSize grid_init" by (simp add: grid_init_def)
  have w: "0 \<le> width (dimensions flat_terrain)" "width (dimensions flat_terrain) = 0"
    by (simp_all add: flat_terrain_def createTerrainObject_def)
  have d: "0 \<le> depth (dimensions flat_terrain)" "depth (dimensions flat_terrain) = 0"
    by (simp_all add: flat_terrain_def createTerrainObject_def)
  note th = footprint_not_clamped [OF cs w(1) d(1),
      of "terrains state_unit @ [flat_terrain]"]
  from th w(2) d(2) have cells: "cellsWide grid_init flat_terrain = 0"
    "cellsDeep grid_init flat_terrain = 0"
    by blast+
  from th w(2) d(2) have eq:
    "findAvailableGridPosition grid_init (terrains state_unit @ [flat_terrain]) flat_terrain =
       (case List.find
              (\<lambda>(x, z). \<not> isPositionOccupied grid_init (terrains state_unit @ [flat_terrain])
                 x z 0 0 (id_t flat_terrain))
              (scan_order grid_init 0 0) of
         Some (x, z) \<Rightarrow> \<lparr>x_g = x, z_g = z\<rparr>
       | None \<Rightarrow> \<lparr>x_g = 0, z_g = 0\<rparr>)"
    by blast
  have pos: "findAvailableGridPosition grid_init (terrains state_unit @ [flat_terrain]) flat_terrain
       = \<lparr>x_g = - 10, z_g = - 10\<rparr>"
    by code_simp
  from eq pos have spec: "(case List.find
              (\<lambda>(x, z). \<not> isPositionOccupied grid_init (terrains state_unit @ [flat_terrain])
                 x z 0 0 (id_t flat_terrain))
              (scan_order grid_init 0 0) of
         Some (x, z) \<Rightarrow> \<lparr>x_g = x, z_g = z\<rparr>
       | None \<Rightarrow> \<lparr>x_g = 0, z_g = 0\<rparr>) = \<lparr>x_g = - 10, z_g = - 10\<rparr>"
    by simp
  from cs w(1) d(1) cells pos spec show ?thesis by blast
qed

end
